theory Spec2Isabelle
  imports Main "HOL-Library.Word"
begin

section \<open>The rank manager (backend/rank_manager.go)\<close>

text \<open>
  Go's \<open>int32\<close> and \<open>int64\<close> are two's-complement machine integers whose arithmetic
  wraps around; they are modelled as words and read with \<open>sint\<close>. Ratings are Go
  \<open>int\<close> values that are only compared, and incremented only while they lie in
  \<open>[0, 5000]\<close>, so they are modelled as \<open>int\<close>.
\<close>

type_synonym int32 = "32 word"
type_synonym int64 = "64 word"

text \<open>
  \<open>type RankManager struct { histogram [5001]int32; mu sync.RWMutex }\<close>.
  The array is a list; a Go array of this type always has exactly 5001 slots, which
  is the well-formedness condition \<open>wf_RankManager\<close>. The lock has no sequential
  content and is left out.
\<close>

record RankManager =
  histogram :: "int32 list"

definition wf_RankManager :: "RankManager \<Rightarrow> bool" where
  "wf_RankManager rm \<longleftrightarrow> length (histogram rm) = 5001"

text \<open>\<open>InitRankManager\<close>: \<open>&RankManager{}\<close> is the zero value, every slot 0.\<close>

definition InitRankManager :: RankManager where
  "InitRankManager = \<lparr>histogram = replicate 5001 0\<rparr>"

text \<open>
  The loop of \<open>GetRank\<close>:
  \<open>for r := rating + 1; r <= 5000; r++ { rank += int64(rm.histogram[r]) }\<close>.
  The conversion \<open>int64(_)\<close> of an \<open>int32\<close> is sign extension, \<open>scast\<close>.
  Go checks the index of \<open>rm.histogram[r]\<close> against the array type's bounds
  \<open>0 \<le> r < 5001\<close> and panics outside them; the panic is the result \<open>None\<close>.
  \<open>GetRank\<close> has no other way to fail.
\<close>

function GetRank_loop :: "int32 list \<Rightarrow> int \<Rightarrow> int64 \<Rightarrow> int64 option" where
  "GetRank_loop h r rank =
     (if r \<le> 5000
      then (if 0 \<le> r \<and> r < 5001
            then GetRank_loop h (r + 1) (rank + scast (h ! nat r))
            else None)
      else Some rank)"
  by pat_completeness auto
termination
  by (relation "measure (\<lambda>(h, r, rank). nat (5001 - r))") auto

declare GetRank_loop.simps [simp del]

definition GetRank :: "RankManager \<Rightarrow> int \<Rightarrow> int64 option" where
  "GetRank rm rating =
     (if rating > 5000 then Some 1
      else let rating = (if rating < 0 then 0 else rating)
           in GetRank_loop (histogram rm) (rating + 1) 1)"

text \<open>
  \<open>UpdateUserRating\<close>: the decrement, then the increment, each under its own range test.
  The increment reads the slot after the decrement has been written. Both accesses come
  right after the test \<open>100 \<le> r \<le> 5000\<close>, so their index is inside the array and
  the bounds check cannot fail; \<open>--\<close> and \<open>++\<close> on an \<open>int32\<close> wrap around.
\<close>

definition UpdateUserRating :: "RankManager \<Rightarrow> int \<Rightarrow> int \<Rightarrow> RankManager" where
  "UpdateUserRating rm oldRating newRating =
     (let h1 = (if oldRating \<ge> 100 \<and> oldRating \<le> 5000
                then (histogram rm)[nat oldRating := histogram rm ! nat oldRating - 1]
                else histogram rm);
          h2 = (if newRating \<ge> 100 \<and> newRating \<le> 5000
                then h1[nat newRating := h1 ! nat newRating + 1]
                else h1)
      in rm\<lparr>histogram := h2\<rparr>)"

text \<open>\<open>BulkLoad\<close>: \<open>for _, r := range ratings { if r >= 100 && r <= 5000 { histogram[r]++ } }\<close>.\<close>

fun BulkLoad_loop :: "int32 list \<Rightarrow> int list \<Rightarrow> int32 list" where
  "BulkLoad_loop h [] = h"
| "BulkLoad_loop h (r # ratings) =
     BulkLoad_loop (if r \<ge> 100 \<and> r \<le> 5000 then h[nat r := h ! nat r + 1] else h) ratings"

definition BulkLoad :: "RankManager \<Rightarrow> int list \<Rightarrow> RankManager" where
  "BulkLoad rm ratings = rm\<lparr>histogram := BulkLoad_loop (histogram rm) ratings\<rparr>"


section \<open>The update handler (backend/main.go)\<close>

text \<open>
  \<open>SimulateScoreUpdate\<close> talks to Postgres through pgx. The table \<open>users\<close> is a map
  from user name to rating. Whether a call to the driver fails for a reason outside the
  program (connectivity, lock or commit conflict) is an input of the model, one field
  of \<open>pgx_outcomes\<close> per call, in the order of the calls. The request body after
  \<open>c.BindJSON\<close> is either the binding error's message or the decoded struct.
\<close>

record update_body =
  Username :: string
  NewRating :: int

record pgx_outcomes =
  Begin_err :: bool
  QueryRow_err :: bool
  Exec_err :: "string option"
  Commit_err :: bool

datatype json = ErrorJSON string | UpdatedJSON int int

record response =
  status :: nat
  payload :: json

text \<open>The two globals the handler works on: the pool \<open>db\<close> and \<open>GlobalRankManager\<close>.\<close>

record server =
  users :: "string \<rightharpoonup> int"
  GlobalRankManager :: RankManager

text \<open>
  Every early \<open>return\<close> leaves through the deferred \<open>tx.Rollback\<close>, which discards
  the transaction's writes: the table is the one before the request. Only the path
  through a successful \<open>tx.Commit\<close> stores the new rating and reaches
  \<open>GlobalRankManager.UpdateUserRating(oldRating, body.NewRating)\<close>.
\<close>

definition SimulateScoreUpdate ::
    "pgx_outcomes \<Rightarrow> string + update_body \<Rightarrow> server \<Rightarrow> response \<times> server" where
  "SimulateScoreUpdate env req s =
     (case req of
        Inl err \<Rightarrow> (\<lparr>status = 400, payload = ErrorJSON err\<rparr>, s)
      | Inr body \<Rightarrow>
          if Begin_err env
          then (\<lparr>status = 500, payload = ErrorJSON ''failed to start transaction''\<rparr>, s)
          else (case (if QueryRow_err env then None else users s (Username body)) of
                  None \<Rightarrow> (\<lparr>status = 404, payload = ErrorJSON ''user not found''\<rparr>, s)
                | Some oldRating \<Rightarrow>
                    (case Exec_err env of
                       Some err \<Rightarrow> (\<lparr>status = 500, payload = ErrorJSON err\<rparr>, s)
                     | None \<Rightarrow>
                         if Commit_err env
                         then (\<lparr>status = 500,
                                payload = ErrorJSON ''failed to commit transaction''\<rparr>, s)
                         else (\<lparr>status = 200,
                                payload = UpdatedJSON oldRating (NewRating body)\<rparr>,
                               s\<lparr>users := (users s)(Username body \<mapsto> NewRating body),
                                 GlobalRankManager :=
                                   UpdateUserRating (GlobalRankManager s) oldRating
                                     (NewRating body)\<rparr>))))"

section \<open>Properties of table states\<close>

text \<open>No slot of the table is negative, each slot read as the signed \<open>int32\<close> it is.\<close>

definition nonneg_slots :: "RankManager \<Rightarrow> bool" where
  "nonneg_slots rm \<longleftrightarrow> (\<forall>x \<in> set (histogram rm). 0 \<le> sint x)"

text \<open>
  The states reached from the empty table when the callers keep to the protocol:
  \<open>BulkLoad\<close> and \<open>UpdateUserRating\<close> in any order, where \<open>UpdateUserRating\<close> is
  only called with an old rating whose slot is occupied (or with one outside
  \<open>[100, 5000]\<close>), and no slot is counted up beyond the largest \<open>int32\<close>.
\<close>

inductive protocol_reachable :: "RankManager \<Rightarrow> bool" where
  pr_init: "protocol_reachable InitRankManager"
| pr_load: "protocol_reachable rm \<Longrightarrow>
     (\<forall>r \<in> set ratings. 100 \<le> r \<and> r \<le> 5000 \<longrightarrow>
        sint (histogram rm ! nat r) + int (count_list ratings r) < 2 ^ 31) \<Longrightarrow>
     protocol_reachable (BulkLoad rm ratings)"
| pr_update: "protocol_reachable rm \<Longrightarrow>
     (100 \<le> oldRating \<and> oldRating \<le> 5000 \<longrightarrow> 0 < sint (histogram rm ! nat oldRating)) \<Longrightarrow>
     (100 \<le> newRating \<and> newRating \<le> 5000 \<longrightarrow>
        sint (histogram rm ! nat newRating) < 2 ^ 31 - 1) \<Longrightarrow>
     protocol_reachable (UpdateUserRating rm oldRating newRating)"

section \<open>Auxiliary facts\<close>

subsection \<open>Well-formedness is kept\<close>

lemma wf_InitRankManager: "wf_RankManager InitRankManager"
  by (simp add: wf_RankManager_def InitRankManager_def)

lemma wf_UpdateUserRating:
  "wf_RankManager rm \<Longrightarrow> wf_RankManager (UpdateUserRating rm a b)"
  by (simp add: wf_RankManager_def UpdateUserRating_def Let_def)

lemma length_BulkLoad_loop: "length (BulkLoad_loop h rs) = length h"
  by (induction rs arbitrary: h) simp_all

lemma wf_BulkLoad: "wf_RankManager rm \<Longrightarrow> wf_RankManager (BulkLoad rm rs)"
  by (simp add: wf_RankManager_def BulkLoad_def length_BulkLoad_loop)

subsection \<open>The loop as a suffix sum\<close>

lemma GetRank_loop_sum:
  "0 \<le> r \<Longrightarrow> r \<le> 5001 \<Longrightarrow> length h = 5001 \<Longrightarrow>
   GetRank_loop h r acc = Some (acc + sum_list (map scast (drop (nat r) h)))"
proof (induction h r acc rule: GetRank_loop.induct)
  case (1 h r rank)
  show ?case
  proof (cases "r \<le> 5000")
    case True
    have lt: "nat r < length h" using True "1.prems" by simp
    have step: "drop (nat r) h = h ! nat r # drop (nat (r + 1)) h"
      using Cons_nth_drop_Suc [OF lt] "1.prems"(1) by (simp add: nat_add_distrib)
    have "GetRank_loop h r rank = GetRank_loop h (r + 1) (rank + scast (h ! nat r))"
      using True "1.prems"(1) by (subst GetRank_loop.simps) simp
    also have "\<dots> = Some (rank + scast (h ! nat r) + sum_list (map scast (drop (nat (r + 1)) h)))"
      using "1.IH" True "1.prems" by simp
    finally show ?thesis by (simp add: step add.assoc)
  next
    case False
    then have "r = 5001" using "1.prems" by simp
    then show ?thesis using "1.prems" by (subst GetRank_loop.simps) simp
  qed
qed

lemma GetRank_sum:
  "wf_RankManager rm \<Longrightarrow> 0 \<le> k \<Longrightarrow> k \<le> 5000 \<Longrightarrow>
   GetRank rm k = Some (1 + sum_list (map scast (drop (nat k + 1) (histogram rm))))"
  by (simp add: GetRank_def wf_RankManager_def GetRank_loop_sum nat_add_distrib)

lemma GetRank_loop_no_panic: "0 \<le> r \<Longrightarrow> \<exists>v. GetRank_loop h r acc = Some v"
proof (induction h r acc rule: GetRank_loop.induct)
  case (1 h r rank)
  show ?case
  proof (cases "r \<le> 5000")
    case True
    then have "GetRank_loop h r rank = GetRank_loop h (r + 1) (rank + scast (h ! nat r))"
      using "1.prems" by (subst GetRank_loop.simps) simp
    then show ?thesis using "1.IH" True "1.prems" by simp
  next
    case False
    then show ?thesis by (subst GetRank_loop.simps) simp
  qed
qed

lemma sum_list_update_group:
  fixes xs :: "'a::ab_group_add list"
  shows "k < length xs \<Longrightarrow> sum_list (xs[k := x]) = sum_list xs - xs ! k + x"
proof (induction xs arbitrary: k)
  case Nil
  then show ?case by simp
next
  case (Cons y ys)
  then show ?case by (cases k) (simp_all add: algebra_simps)
qed

lemmas table_eval =
  drop_update_swap drop_update_cancel map_update sum_list_update_group sum_list_replicate

lemma hist_loaded:
  "histogram (BulkLoad InitRankManager [100, 100, 200]) = (replicate 5001 0)[100 := 2, 200 := 1]"
  by (simp add: BulkLoad_def InitRankManager_def)

lemma hist_moved:
  "histogram (UpdateUserRating (BulkLoad InitRankManager [100, 100, 200]) 100 300)
   = (replicate 5001 0)[100 := 1, 200 := 1, 300 := 1]"
  by (simp add: UpdateUserRating_def Let_def hist_loaded list_update_swap [of 200 100])

subsection \<open>Signed reading of slots and ranks\<close>

lemma sint_scast_32_64: "sint (scast (x :: int32) :: int64) = sint x"
  by (rule sint_up_scast) (simp add: is_up)

lemma sint32_bounds: "- (2 ^ 31) \<le> sint (x :: int32)" "sint (x :: int32) < 2 ^ 31"
  using sint_ge [of x] sint_lt [of x] by simp_all

lemma sint_dec32: "0 < sint (x :: int32) \<Longrightarrow> sint (x - 1) = sint x - 1"
proof -
  assume pos: "0 < sint x"
  have "sint (x - 1) = signed_take_bit 31 (sint x - 1)"
    by (simp add: sint_word_ariths)
  also have "\<dots> = sint x - 1"
    by (rule signed_take_bit_int_eq_self) (use pos sint32_bounds(2) [of x] in simp_all)
  finally show ?thesis .
qed

lemma sint_inc32:
  "- 1 \<le> sint (x :: int32) \<Longrightarrow> sint x < 2 ^ 31 - 1 \<Longrightarrow> sint (x + 1) = sint x + 1"
proof -
  assume lo: "- 1 \<le> sint x" and hi: "sint x < 2 ^ 31 - 1"
  have "sint (x + 1) = signed_take_bit 31 (sint x + 1)"
    by (simp add: sint_word_ariths)
  also have "\<dots> = sint x + 1"
    by (rule signed_take_bit_int_eq_self) (use lo hi in simp_all)
  finally show ?thesis .
qed

lemma sint_sum_scast:
  fixes xs :: "int32 list"
  assumes "length xs \<le> 5001"
  shows "sint (sum_list (map scast xs) :: int64) = sum_list (map sint xs)
         \<and> \<bar>sum_list (map sint xs)\<bar> \<le> int (length xs) * 2 ^ 31"
  using assms
proof (induction xs)
  case Nil
  then show ?case by simp
next
  case (Cons x xs)
  let ?s = "sum_list (map sint xs)"
  have ih: "sint (sum_list (map scast xs) :: int64) = ?s" "\<bar>?s\<bar> \<le> int (length xs) * 2 ^ 31"
    using Cons by simp_all
  have len: "int (length xs) \<le> 5000" using Cons.prems by simp
  have bx: "- (2 ^ 31) \<le> sint x" "sint x < 2 ^ 31" by (rule sint32_bounds)+
  have b2: "\<bar>sint x + ?s\<bar> \<le> int (length (x # xs)) * 2 ^ 31"
    using ih(2) bx by (simp add: algebra_simps)
  have "int (length (x # xs)) * (2 ^ 31 :: int) \<le> 5001 * 2 ^ 31"
    using len by simp
  then have b3: "- (2 ^ 63) \<le> sint x + ?s" "sint x + ?s < 2 ^ 63"
    using b2 by simp_all
  have "sint (scast x + sum_list (map scast xs) :: int64) = signed_take_bit 63 (sint x + ?s)"
    by (simp add: sint_word_ariths ih(1) sint_scast_32_64)
  also have "\<dots> = sint x + ?s"
    by (rule signed_take_bit_int_eq_self) (use b3 in simp_all)
  finally show ?case using b2 by simp
qed

lemma GetRank_sint:
  assumes wf: "wf_RankManager rm" and k: "0 \<le> k" "k \<le> 5000"
  shows "\<exists>v. GetRank rm k = Some v
            \<and> sint v = 1 + sum_list (map sint (drop (nat k + 1) (histogram rm)))"
proof -
  let ?xs = "drop (nat k + 1) (histogram rm)"
  let ?S = "sum_list (map scast ?xs) :: int64"
  have len: "length ?xs \<le> 5000"
    using wf by (simp add: wf_RankManager_def)
  then have s: "sint ?S = sum_list (map sint ?xs)"
    and b: "\<bar>sum_list (map sint ?xs)\<bar> \<le> int (length ?xs) * 2 ^ 31"
    using sint_sum_scast [of ?xs] by simp_all
  have "int (length ?xs) * (2 ^ 31 :: int) \<le> 5000 * 2 ^ 31"
    using len by simp
  then have b3: "- (2 ^ 63) \<le> 1 + sint ?S" "1 + sint ?S < 2 ^ 63"
    using b s by simp_all
  have "sint (1 + ?S) = signed_take_bit 63 (1 + sint ?S)"
    by (simp add: sint_word_ariths)
  also have "\<dots> = 1 + sint ?S"
    by (rule signed_take_bit_int_eq_self) (use b3 in simp_all)
  finally have "sint (1 + ?S) = 1 + sum_list (map sint ?xs)"
    using s by simp
  then show ?thesis
    using GetRank_sum [OF wf k] by simp
qed

lemma sum_sint_nonneg:
  "\<forall>x \<in> set h. 0 \<le> sint x \<Longrightarrow> set xs \<subseteq> set h \<Longrightarrow> 0 \<le> sum_list (map sint xs)"
  by (rule sum_list_nonneg) auto

lemma GetRank_mono_in_range:
  assumes wf: "wf_RankManager rm" and nn: "nonneg_slots rm"
    and ab: "0 \<le> b" "b \<le> a" "a \<le> 5000"
  shows "\<exists>ra rb. GetRank rm a = Some ra \<and> GetRank rm b = Some rb \<and> sint ra \<le> sint rb"
proof -
  let ?h = "histogram rm"
  obtain ra where ra: "GetRank rm a = Some ra"
    "sint ra = 1 + sum_list (map sint (drop (nat a + 1) ?h))"
    using GetRank_sint [OF wf, of a] ab by auto
  obtain rb where rb: "GetRank rm b = Some rb"
    "sint rb = 1 + sum_list (map sint (drop (nat b + 1) ?h))"
    using GetRank_sint [OF wf, of b] ab by auto
  have split: "drop (nat b + 1) ?h
      = take (nat a - nat b) (drop (nat b + 1) ?h) @ drop (nat a + 1) ?h"
  proof -
    have "drop (nat a - nat b) (drop (nat b + 1) ?h) = drop (nat a + 1) ?h"
      using ab by (simp add: nat_le_eq_zle)
    then show ?thesis
      using append_take_drop_id [of "nat a - nat b" "drop (nat b + 1) ?h"] by simp
  qed
  have "0 \<le> sum_list (map sint (take (nat a - nat b) (drop (nat b + 1) ?h)))"
  proof (rule sum_sint_nonneg)
    show "\<forall>x \<in> set ?h. 0 \<le> sint x" using nn by (simp add: nonneg_slots_def)
    show "set (take (nat a - nat b) (drop (nat b + 1) ?h)) \<subseteq> set ?h"
      by (meson set_take_subset set_drop_subset subset_trans)
  qed
  then have "sint ra \<le> sint rb"
    using ra(2) rb(2) by (subst (asm) (2) split) simp
  then show ?thesis using ra(1) rb(1) by simp
qed

lemma GetRank_clamp: "k < 0 \<Longrightarrow> GetRank rm k = GetRank rm 0"
  by (simp add: GetRank_def)

lemma GetRank_ge_1_in_range:
  assumes wf: "wf_RankManager rm" and nn: "nonneg_slots rm" and k: "0 \<le> k" "k \<le> 5000"
  shows "\<exists>v. GetRank rm k = Some v \<and> 1 \<le> sint v"
proof -
  obtain v where v: "GetRank rm k = Some v"
    "sint v = 1 + sum_list (map sint (drop (nat k + 1) (histogram rm)))"
    using GetRank_sint [OF wf k] by auto
  have "0 \<le> sum_list (map sint (drop (nat k + 1) (histogram rm)))"
    by (rule sum_sint_nonneg [of "histogram rm"])
      (use nn in \<open>simp_all add: nonneg_slots_def set_drop_subset\<close>)
  then show ?thesis using v by simp
qed

subsection \<open>Non-negative slots under the operations\<close>

lemma all_nonneg_update:
  "\<forall>x \<in> set h. 0 \<le> sint x \<Longrightarrow> 0 \<le> sint v \<Longrightarrow> \<forall>x \<in> set (h[i := v]). 0 \<le> sint (x :: int32)"
  using set_update_subset_insert [of h i v] by auto

lemma BulkLoad_loop_nonneg:
  "length h = 5001 \<Longrightarrow> \<forall>x \<in> set h. 0 \<le> sint x \<Longrightarrow>
   \<forall>r \<in> set rs. 100 \<le> r \<and> r \<le> 5000 \<longrightarrow> sint (h ! nat r) + int (count_list rs r) < 2 ^ 31 \<Longrightarrow>
   \<forall>x \<in> set (BulkLoad_loop h rs). 0 \<le> sint x"
proof (induction rs arbitrary: h)
  case Nil
  then show ?case by simp
next
  case (Cons r rs)
  show ?case
  proof (cases "100 \<le> r \<and> r \<le> 5000")
    case False
    have "\<forall>q \<in> set rs. 100 \<le> q \<and> q \<le> 5000 \<longrightarrow> sint (h ! nat q) + int (count_list rs q) < 2 ^ 31"
      using Cons.prems(3) False by auto
    then show ?thesis
      using Cons.IH [OF Cons.prems(1,2)] False by auto
  next
    case True
    let ?h = "h[nat r := h ! nat r + 1]"
    have idx: "nat r < length h" using True Cons.prems(1) by linarith
    have ge0: "0 \<le> sint (h ! nat r)" using Cons.prems(2) idx by simp
    have "sint (h ! nat r) + int (count_list (r # rs) r) < 2 ^ 31"
      using Cons.prems(3) True by simp
    then have room: "sint (h ! nat r) + 1 + int (count_list rs r) < 2 ^ 31" by simp
    then have inc: "sint (h ! nat r + 1) = sint (h ! nat r) + 1"
      using ge0 by (intro sint_inc32) simp_all
    have len: "length ?h = 5001" using Cons.prems(1) by simp
    have nn: "\<forall>x \<in> set ?h. 0 \<le> sint x"
      using all_nonneg_update [OF Cons.prems(2), of "h ! nat r + 1" "nat r"] inc ge0 by simp
    have guard: "\<forall>q \<in> set rs. 100 \<le> q \<and> q \<le> 5000 \<longrightarrow>
        sint (?h ! nat q) + int (count_list rs q) < 2 ^ 31"
    proof (intro ballI impI)
      fix q assume q: "q \<in> set rs" "100 \<le> q \<and> q \<le> 5000"
      show "sint (?h ! nat q) + int (count_list rs q) < 2 ^ 31"
      proof (cases "q = r")
        case True
        then show ?thesis using idx inc room by simp
      next
        case False
        then have "nat q \<noteq> nat r" using q(2) True by linarith
        moreover have "sint (h ! nat q) + int (count_list (r # rs) q) < 2 ^ 31"
          using Cons.prems(3) q by simp
        ultimately show ?thesis using False by simp
      qed
    qed
    show ?thesis using Cons.IH [OF len nn guard] True by simp
  qed
qed

lemma UpdateUserRating_nonneg:
  assumes wf: "wf_RankManager rm" and nn: "nonneg_slots rm"
    and old: "100 \<le> oldRating \<and> oldRating \<le> 5000 \<longrightarrow> 0 < sint (histogram rm ! nat oldRating)"
    and new: "100 \<le> newRating \<and> newRating \<le> 5000 \<longrightarrow>
        sint (histogram rm ! nat newRating) < 2 ^ 31 - 1"
  shows "nonneg_slots (UpdateUserRating rm oldRating newRating)"
proof -
  let ?h = "histogram rm"
  let ?h1 = "if 100 \<le> oldRating \<and> oldRating \<le> 5000
             then ?h[nat oldRating := ?h ! nat oldRating - 1] else ?h"
  have len: "length ?h = 5001" using wf by (simp add: wf_RankManager_def)
  have nn0: "\<forall>x \<in> set ?h. 0 \<le> sint x" using nn by (simp add: nonneg_slots_def)
  have nn1: "\<forall>x \<in> set ?h1. 0 \<le> sint x"
  proof (cases "100 \<le> oldRating \<and> oldRating \<le> 5000")
    case True
    then have "sint (?h ! nat oldRating - 1) = sint (?h ! nat oldRating) - 1"
      using old by (intro sint_dec32) simp
    then have "0 \<le> sint (?h ! nat oldRating - 1)" using old True by simp
    then show ?thesis using all_nonneg_update [OF nn0] True by simp
  next
    case False
    then show ?thesis using nn0 by auto
  qed
  have len1: "length ?h1 = 5001" using len by simp
  have "\<forall>x \<in> set (if 100 \<le> newRating \<and> newRating \<le> 5000
                       then ?h1[nat newRating := ?h1 ! nat newRating + 1] else ?h1). 0 \<le> sint x"
  proof (cases "100 \<le> newRating \<and> newRating \<le> 5000")
    case True
    then have idx: "nat newRating < length ?h1" using len1 by linarith
    have idx0: "nat newRating < length ?h" using True len by linarith
    have "?h1 ! nat newRating \<in> set ?h1" using idx by (rule nth_mem)
    then have ge0: "0 \<le> sint (?h1 ! nat newRating)" using nn1 by blast
    have lt: "sint (?h1 ! nat newRating) < 2 ^ 31 - 1"
    proof (cases "100 \<le> oldRating \<and> oldRating \<le> 5000 \<and> nat oldRating = nat newRating")
      case True
      then have "sint (?h ! nat oldRating - 1) = sint (?h ! nat oldRating) - 1"
        using old by (intro sint_dec32) simp
      moreover have "sint (?h ! nat oldRating) < 2 ^ 31" by (rule sint32_bounds)
      moreover note idx0
      ultimately show ?thesis using True by simp
    next
      case False
      then have "?h1 ! nat newRating = ?h ! nat newRating" by auto
      then show ?thesis using new True by simp
    qed
    have "sint (?h1 ! nat newRating + 1) = sint (?h1 ! nat newRating) + 1"
      using ge0 lt by (intro sint_inc32) simp_all
    then have "0 \<le> sint (?h1 ! nat newRating + 1)" using ge0 by simp
    then show ?thesis using all_nonneg_update [OF nn1] True by simp
  next
    case False
    then show ?thesis using nn1 by auto
  qed
  then show ?thesis
    by (simp add: nonneg_slots_def UpdateUserRating_def Let_def)
qed

lemma nonneg_InitRankManager: "nonneg_slots InitRankManager"
  by (simp add: nonneg_slots_def InitRankManager_def)

subsection \<open>The tables of the examples\<close>

lemma hist_underflow:
  "histogram (UpdateUserRating InitRankManager 100 200) = (replicate 5001 0)[100 := - 1, 200 := 1]"
  by (simp add: UpdateUserRating_def Let_def InitRankManager_def)

lemma hist_left:
  "histogram (UpdateUserRating InitRankManager 100 6000) = (replicate 5001 0)[100 := - 1]"
  by (simp add: UpdateUserRating_def Let_def InitRankManager_def)

lemma nonneg_loaded: "nonneg_slots (BulkLoad InitRankManager [100, 100, 200])"
  unfolding nonneg_slots_def hist_loaded
  by (intro all_nonneg_update) simp_all

lemma wf_loaded: "wf_RankManager (BulkLoad InitRankManager [100, 100, 200])"
  by (simp add: wf_BulkLoad wf_InitRankManager)

section \<open>Commit ordering of the update handler\<close>

text \<open>
  Claim C1. For every update request the rank manager is changed only after the
  transaction has committed. The response is 200 exactly when the body was decoded and
  \<open>Begin\<close>, the locked read of the user's row, the write and \<open>Commit\<close> all
  succeeded; then the table is the old one after
  \<open>UpdateUserRating oldRating newRating\<close>, with the old rating the one read from the
  row. At every other response the whole server state, and with it the frequency table,
  is exactly the one before the request, and the response names the failure: 400 for a
  body that does not decode, 500 for a transaction that does not start, 404 for a user
  that is not found, 500 with the driver's message for a failed write, 500 for a failed
  commit.
\<close>

theorem SimulateScoreUpdate_commit_ordering:
  "SimulateScoreUpdate env req s = (resp, s') \<Longrightarrow>
   (status resp \<noteq> 200 \<longrightarrow> s' = s)
   \<and> (status resp = 200 \<longleftrightarrow>
        (\<exists>body oldRating. req = Inr body \<and> \<not> Begin_err env \<and> \<not> QueryRow_err env
           \<and> users s (Username body) = Some oldRating
           \<and> Exec_err env = None \<and> \<not> Commit_err env))
   \<and> (\<forall>body oldRating. req = Inr body \<and> \<not> Begin_err env \<and> \<not> QueryRow_err env
          \<and> users s (Username body) = Some oldRating
          \<and> Exec_err env = None \<and> \<not> Commit_err env \<longrightarrow>
        resp = \<lparr>status = 200, payload = UpdatedJSON oldRating (NewRating body)\<rparr>
        \<and> s' = s\<lparr>users := (users s)(Username body \<mapsto> NewRating body),
                  GlobalRankManager :=
                    UpdateUserRating (GlobalRankManager s) oldRating (NewRating body)\<rparr>)
   \<and> (\<forall>err. req = Inl err \<longrightarrow>
        resp = \<lparr>status = 400, payload = ErrorJSON err\<rparr> \<and> s' = s)
   \<and> (\<forall>body. req = Inr body \<and> Begin_err env \<longrightarrow>
        resp = \<lparr>status = 500, payload = ErrorJSON ''failed to start transaction''\<rparr>
        \<and> s' = s)
   \<and> (\<forall>body. req = Inr body \<and> \<not> Begin_err env
          \<and> (QueryRow_err env \<or> users s (Username body) = None) \<longrightarrow>
        resp = \<lparr>status = 404, payload = ErrorJSON ''user not found''\<rparr> \<and> s' = s)
   \<and> (\<forall>body oldRating err. req = Inr body \<and> \<not> Begin_err env \<and> \<not> QueryRow_err env
          \<and> users s (Username body) = Some oldRating \<and> Exec_err env = Some err \<longrightarrow>
        resp = \<lparr>status = 500, payload = ErrorJSON err\<rparr> \<and> s' = s)
   \<and> (\<forall>body oldRating. req = Inr body \<and> \<not> Begin_err env \<and> \<not> QueryRow_err env
          \<and> users s (Username body) = Some oldRating \<and> Exec_err env = None \<and> Commit_err env \<longrightarrow>
        resp = \<lparr>status = 500, payload = ErrorJSON ''failed to commit transaction''\<rparr>
        \<and> s' = s)"
  by (auto simp add: SimulateScoreUpdate_def split: sum.splits if_splits option.splits)

text \<open>
  Claim C1 at a request for a stored user: with a failing commit and with a failing
  \<open>Begin\<close> the state is untouched, and when every call succeeds the response is 200
  and the table has taken the step from 100 to 300.
\<close>

theorem SimulateScoreUpdate_commit_ordering_witness:
  "SimulateScoreUpdate
     \<lparr>Begin_err = False, QueryRow_err = False, Exec_err = None, Commit_err = True\<rparr>
     (Inr \<lparr>Username = ''user_1'', NewRating = 300\<rparr>)
     \<lparr>users = [''user_1'' \<mapsto> 100], GlobalRankManager = BulkLoad InitRankManager [100, 100, 200]\<rparr>
   = (\<lparr>status = 500, payload = ErrorJSON ''failed to commit transaction''\<rparr>,
      \<lparr>users = [''user_1'' \<mapsto> 100], GlobalRankManager = BulkLoad InitRankManager [100, 100, 200]\<rparr>)
   \<and> SimulateScoreUpdate
     \<lparr>Begin_err = True, QueryRow_err = False, Exec_err = None, Commit_err = False\<rparr>
     (Inr \<lparr>Username = ''user_1'', NewRating = 300\<rparr>)
     \<lparr>users = [''user_1'' \<mapsto> 100], GlobalRankManager = BulkLoad InitRankManager [100, 100, 200]\<rparr>
   = (\<lparr>status = 500, payload = ErrorJSON ''failed to start transaction''\<rparr>,
      \<lparr>users = [''user_1'' \<mapsto> 100], GlobalRankManager = BulkLoad InitRankManager [100, 100, 200]\<rparr>)
   \<and> SimulateScoreUpdate
     \<lparr>Begin_err = False, QueryRow_err = False, Exec_err = None, Commit_err = False\<rparr>
     (Inr \<lparr>Username = ''user_1'', NewRating = 300\<rparr>)
     \<lparr>users = [''user_1'' \<mapsto> 100], GlobalRankManager = BulkLoad InitRankManager [100, 100, 200]\<rparr>
   = (\<lparr>status = 200, payload = UpdatedJSON 100 300\<rparr>,
      \<lparr>users = [''user_1'' \<mapsto> 300],
       GlobalRankManager = UpdateUserRating (BulkLoad InitRankManager [100, 100, 200]) 100 300\<rparr>)"
proof -
  let ?s = "\<lparr>users = [''user_1'' \<mapsto> 100],
             GlobalRankManager = BulkLoad InitRankManager [100, 100, 200]\<rparr>"
  let ?req = "Inr \<lparr>Username = ''user_1'', NewRating = 300\<rparr> :: string + update_body"
  let ?commit = "\<lparr>Begin_err = False, QueryRow_err = False, Exec_err = None, Commit_err = True\<rparr>"
  let ?begin = "\<lparr>Begin_err = True, QueryRow_err = False, Exec_err = None, Commit_err = False\<rparr>"
  let ?ok = "\<lparr>Begin_err = False, QueryRow_err = False, Exec_err = None, Commit_err = False\<rparr>"
  obtain r1 s1 where e1: "SimulateScoreUpdate ?commit ?req ?s = (r1, s1)"
    by (cases "SimulateScoreUpdate ?commit ?req ?s")
  obtain r2 s2 where e2: "SimulateScoreUpdate ?begin ?req ?s = (r2, s2)"
    by (cases "SimulateScoreUpdate ?begin ?req ?s")
  obtain r3 s3 where e3: "SimulateScoreUpdate ?ok ?req ?s = (r3, s3)"
    by (cases "SimulateScoreUpdate ?ok ?req ?s")
  have "r1 = \<lparr>status = 500, payload = ErrorJSON ''failed to commit transaction''\<rparr> \<and> s1 = ?s"
    using SimulateScoreUpdate_commit_ordering [OF e1] by simp
  moreover have "r2 = \<lparr>status = 500, payload = ErrorJSON ''failed to start transaction''\<rparr>
      \<and> s2 = ?s"
    using SimulateScoreUpdate_commit_ordering [OF e2] by simp
  moreover have "r3 = \<lparr>status = 200, payload = UpdatedJSON 100 300\<rparr>
      \<and> s3 = \<lparr>users = [''user_1'' \<mapsto> 300],
               GlobalRankManager = UpdateUserRating (BulkLoad InitRankManager [100, 100, 200]) 100 300\<rparr>"
    using SimulateScoreUpdate_commit_ordering [OF e3] by simp
  ultimately show ?thesis using e1 e2 e3 by simp
qed

section \<open>Slots and negative counts\<close>

text \<open>
  Claim C2 does not hold of the code. \<open>UpdateUserRating\<close> makes no test of the slot
  it decrements: from the empty table, \<open>UpdateUserRating 100 200\<close> leaves the count
  \<open>-1\<close> in slot 100, and nothing is signalled.
\<close>

theorem UpdateUserRating_underflow_counterexample:
  "sint (histogram (UpdateUserRating InitRankManager 100 200) ! 100) = - 1"
  by (simp add: hist_underflow)

text \<open>
  Claim C2, as the code has it. In every state reached from the empty table by
  \<open>BulkLoad\<close> and by calls of \<open>UpdateUserRating\<close> whose old rating, when it lies
  in \<open>[100, 5000]\<close>, indexes a slot with a positive count, and in which no slot is
  counted beyond the largest \<open>int32\<close>, the table has its 5001 slots and none of them
  is negative.
\<close>

theorem protocol_reachable_nonneg:
  "protocol_reachable rm \<Longrightarrow> wf_RankManager rm \<and> nonneg_slots rm"
proof (induction rule: protocol_reachable.induct)
  case pr_init
  show ?case by (simp add: wf_InitRankManager nonneg_InitRankManager)
next
  case (pr_load rm ratings)
  then have "\<forall>x \<in> set (BulkLoad_loop (histogram rm) ratings). 0 \<le> sint x"
    by (intro BulkLoad_loop_nonneg) (simp_all add: wf_RankManager_def nonneg_slots_def)
  then show ?case
    using pr_load by (simp add: wf_BulkLoad) (simp add: nonneg_slots_def BulkLoad_def)
next
  case (pr_update rm oldRating newRating)
  then show ?case
    by (simp add: wf_UpdateUserRating UpdateUserRating_nonneg)
qed

text \<open>
  Claim C2 at a state reached within the protocol: three ratings loaded, then one of
  them moved from 100 to 300.
\<close>

theorem protocol_reachable_nonneg_witness:
  "protocol_reachable (UpdateUserRating (BulkLoad InitRankManager [100, 100, 200]) 100 300)
   \<and> wf_RankManager (UpdateUserRating (BulkLoad InitRankManager [100, 100, 200]) 100 300)
   \<and> nonneg_slots (UpdateUserRating (BulkLoad InitRankManager [100, 100, 200]) 100 300)"
proof -
  have r1: "protocol_reachable (BulkLoad InitRankManager [100, 100, 200])"
    by (rule pr_load [OF pr_init]) (simp add: InitRankManager_def)
  have r2: "protocol_reachable (UpdateUserRating (BulkLoad InitRankManager [100, 100, 200]) 100 300)"
    by (rule pr_update [OF r1]) (simp_all add: hist_loaded)
  show ?thesis using r2 protocol_reachable_nonneg [OF r2] by simp
qed

section \<open>The scenarios\<close>

text \<open>
  Claim C3, as the code has it. From the empty table, after
  \<open>BulkLoad [100, 100, 200]\<close> the rank of 100 is 2 and the rank of 200 is 1. The rank
  of 0 is 4, not 3: all three loaded ratings are strictly greater than 0, and the rank is
  one more than their number.
\<close>

theorem scenario_BulkLoad_ranks:
  "GetRank (BulkLoad InitRankManager [100, 100, 200]) 100 = Some 2
   \<and> GetRank (BulkLoad InitRankManager [100, 100, 200]) 200 = Some 1
   \<and> GetRank (BulkLoad InitRankManager [100, 100, 200]) 0 = Some 4"
  by (simp add: GetRank_sum wf_BulkLoad wf_InitRankManager hist_loaded table_eval)

text \<open>Claim C3 as stated, with rank 3 for the score 0, does not hold of the code.\<close>

theorem scenario_BulkLoad_ranks_counterexample:
  "\<not> (GetRank (BulkLoad InitRankManager [100, 100, 200]) 100 = Some 2
      \<and> GetRank (BulkLoad InitRankManager [100, 100, 200]) 200 = Some 1
      \<and> GetRank (BulkLoad InitRankManager [100, 100, 200]) 0 = Some 3)"
  by (simp add: GetRank_sum wf_BulkLoad wf_InitRankManager hist_loaded table_eval)

text \<open>
  Claim C4, as the code has it. On the table of the previous scenario, after
  \<open>UpdateUserRating 100 300\<close> the rank of 300 is 1. The rank of 100 is 3, not 2: the
  ratings 200 and 300 are both strictly greater than 100.
\<close>

theorem scenario_UpdateUserRating_ranks:
  "GetRank (UpdateUserRating (BulkLoad InitRankManager [100, 100, 200]) 100 300) 300 = Some 1
   \<and> GetRank (UpdateUserRating (BulkLoad InitRankManager [100, 100, 200]) 100 300) 100 = Some 3"
  by (simp add: GetRank_sum wf_UpdateUserRating wf_BulkLoad wf_InitRankManager hist_moved
      table_eval)

text \<open>Claim C4 as stated, with rank 2 for the score 100, does not hold of the code.\<close>

theorem scenario_UpdateUserRating_ranks_counterexample:
  "\<not> (GetRank (UpdateUserRating (BulkLoad InitRankManager [100, 100, 200]) 100 300) 300 = Some 1
      \<and> GetRank (UpdateUserRating (BulkLoad InitRankManager [100, 100, 200]) 100 300) 100 = Some 2)"
  by (simp add: GetRank_sum wf_UpdateUserRating wf_BulkLoad wf_InitRankManager hist_moved
      table_eval)

section \<open>Algebraic properties\<close>

text \<open>
  Claim C5. For every table state and all integers \<open>oldRating\<close> and
  \<open>newRating\<close>, \<open>UpdateUserRating oldRating newRating\<close> followed by
  \<open>UpdateUserRating newRating oldRating\<close> gives back exactly the state before the
  two calls. The wrap-around of \<open>int32\<close> does not disturb this: the decrement and
  the increment of a word are inverse to each other.
\<close>

theorem UpdateUserRating_round_trip:
  "UpdateUserRating (UpdateUserRating rm oldRating newRating) newRating oldRating = rm"
proof -
  let ?h = "histogram rm"
  let ?o = "nat oldRating" and ?n = "nat newRating"
  show ?thesis
  proof (cases "oldRating = newRating")
    case True
    then show ?thesis
      by (cases "?n < length ?h") (simp_all add: UpdateUserRating_def Let_def list_update_beyond)
  next
    case False
    show ?thesis
    proof (cases "100 \<le> oldRating \<and> oldRating \<le> 5000 \<and> 100 \<le> newRating \<and> newRating \<le> 5000")
      case True
      then have d: "?o \<noteq> ?n" using False by linarith
      show ?thesis using True d
        by (cases "?n < length ?h"; cases "?o < length ?h")
          (simp_all add: UpdateUserRating_def Let_def list_update_swap [of ?n ?o] list_update_beyond)
    next
      case False
      then show ?thesis
        by (cases "?n < length ?h"; cases "?o < length ?h")
          (auto simp add: UpdateUserRating_def Let_def list_update_beyond)
    qed
  qed
qed

text \<open>
  Claim C6 does not hold of every table state. After \<open>UpdateUserRating 100 200\<close>
  on the empty table slot 100 holds \<open>-1\<close>; the score 100 then has rank 2 and the
  lower score 99 has rank 1.
\<close>

theorem GetRank_antitone_counterexample:
  "(99 :: int) < 100
   \<and> GetRank (UpdateUserRating InitRankManager 100 200) 100 = Some 2
   \<and> GetRank (UpdateUserRating InitRankManager 100 200) 99 = Some 1
   \<and> \<not> sint (2 :: int64) \<le> sint (1 :: int64)"
  by (simp add: GetRank_sum wf_UpdateUserRating wf_InitRankManager hist_underflow table_eval)

text \<open>
  Claim C6, as the code has it. For every table state in which no slot is negative
  and all scores \<open>a > b\<close>, both ranks are returned and the rank of \<open>a\<close> is at most
  the rank of \<open>b\<close>, the ranks read as the signed \<open>int64\<close> they are.
\<close>

theorem GetRank_antitone:
  assumes "wf_RankManager rm" and "nonneg_slots rm" and "b < a"
  shows "\<exists>ra rb. GetRank rm a = Some ra \<and> GetRank rm b = Some rb \<and> sint ra \<le> sint rb"
proof (cases "5000 < a")
  case True
  then have a: "GetRank rm a = Some 1" by (simp add: GetRank_def)
  have "\<exists>v. GetRank rm b = Some v \<and> 1 \<le> sint v"
  proof (cases "5000 < b")
    case True
    then show ?thesis by (simp add: GetRank_def)
  next
    case False
    then show ?thesis
      using GetRank_ge_1_in_range [OF assms(1,2), of "max 0 b"] GetRank_clamp [of b rm]
      by (cases "b < 0") (simp_all add: max_def)
  qed
  then show ?thesis using a by auto
next
  case False
  then have "\<exists>ra rb. GetRank rm (max 0 a) = Some ra \<and> GetRank rm (max 0 b) = Some rb
      \<and> sint ra \<le> sint rb"
    using assms(3) by (intro GetRank_mono_in_range [OF assms(1,2)]) simp_all
  moreover have "GetRank rm (max 0 a) = GetRank rm a" "GetRank rm (max 0 b) = GetRank rm b"
    using GetRank_clamp [of a rm] GetRank_clamp [of b rm] by (simp_all add: max_def)
  ultimately show ?thesis by simp
qed

text \<open>
  Claim C6 at the table holding the ratings 100, 100 and 200, for the scores 200 and
  100.
\<close>

theorem GetRank_antitone_witness:
  "wf_RankManager (BulkLoad InitRankManager [100, 100, 200])
   \<and> nonneg_slots (BulkLoad InitRankManager [100, 100, 200])
   \<and> (100 :: int) < 200
   \<and> (\<exists>ra rb. GetRank (BulkLoad InitRankManager [100, 100, 200]) 200 = Some ra
         \<and> GetRank (BulkLoad InitRankManager [100, 100, 200]) 100 = Some rb
         \<and> sint ra \<le> sint rb)"
  using GetRank_antitone [OF wf_loaded nonneg_loaded, of 100 200] wf_loaded nonneg_loaded
  by simp

section \<open>Results of the rank query\<close>

text \<open>
  Claim C7 does not hold of every table state. After \<open>UpdateUserRating 100 6000\<close>
  on the empty table slot 100 holds \<open>-1\<close> and no other slot is occupied; the rank
  of the score 0 is then 0.
\<close>

theorem GetRank_ge_1_counterexample:
  "GetRank (UpdateUserRating InitRankManager 100 6000) 0 = Some 0
   \<and> \<not> 1 \<le> sint (0 :: int64)"
  by (simp add: GetRank_sum wf_UpdateUserRating wf_InitRankManager hist_left table_eval)

text \<open>
  Claim C7, as the code has it. For every score and every table state \<open>GetRank\<close>
  returns a value: no index it reads is outside the array. When no slot of the table is
  negative, the value is at least 1.
\<close>

theorem GetRank_total_ge_1:
  "(\<exists>v. GetRank rm score = Some v)
   \<and> (wf_RankManager rm \<and> nonneg_slots rm \<longrightarrow> (\<exists>v. GetRank rm score = Some v \<and> 1 \<le> sint v))"
proof
  show "\<exists>v. GetRank rm score = Some v"
    using GetRank_loop_no_panic [of "(if score < 0 then 0 else score) + 1" "histogram rm" 1]
    by (simp add: GetRank_def Let_def)
  show "wf_RankManager rm \<and> nonneg_slots rm \<longrightarrow> (\<exists>v. GetRank rm score = Some v \<and> 1 \<le> sint v)"
  proof
    assume h: "wf_RankManager rm \<and> nonneg_slots rm"
    show "\<exists>v. GetRank rm score = Some v \<and> 1 \<le> sint v"
    proof (cases "5000 < score")
      case True
      then show ?thesis by (simp add: GetRank_def)
    next
      case False
      then show ?thesis
        using GetRank_ge_1_in_range [of rm "max 0 score"] h GetRank_clamp [of score rm]
        by (cases "score < 0") (simp_all add: max_def)
    qed
  qed
qed

text \<open>
  Claim C7 at the table holding the ratings 100, 100 and 200, for the score 0.
\<close>

theorem GetRank_total_ge_1_witness:
  "(\<exists>v. GetRank (BulkLoad InitRankManager [100, 100, 200]) 0 = Some v)
   \<and> wf_RankManager (BulkLoad InitRankManager [100, 100, 200])
   \<and> nonneg_slots (BulkLoad InitRankManager [100, 100, 200])
   \<and> (\<exists>v. GetRank (BulkLoad InitRankManager [100, 100, 200]) 0 = Some v \<and> 1 \<le> sint v)"
  using GetRank_total_ge_1 [of "BulkLoad InitRankManager [100, 100, 200]" 0]
    wf_loaded nonneg_loaded
  by simp



section \<open>Effect of an update on the slots\<close>

text \<open>
  Claim C9 does not hold over the range \<open>[0, 5000]\<close> of the table. The score 50
  lies in it, and \<open>UpdateUserRating\<close> neither increments slot 50 for a new rating
  of 50 nor decrements it for an old rating of 50: its test is \<open>100 \<le> r \<le> 5000\<close>,
  while \<open>GetRank\<close> takes 0 for the floor. (\<open>-1\<close> is the old rating the seeding
  code passes for a user without one.)
\<close>

theorem UpdateUserRating_floor_counterexample:
  "(0 :: int) \<le> 50 \<and> (50 :: int) \<le> 5000
   \<and> histogram (UpdateUserRating InitRankManager (- 1) 50) ! 50 = histogram InitRankManager ! 50
   \<and> histogram (UpdateUserRating (BulkLoad InitRankManager [100, 100, 200]) 50 (- 1))
       = histogram (BulkLoad InitRankManager [100, 100, 200])"
  by (simp add: UpdateUserRating_def Let_def)

text \<open>
  Claim C9, as the code has it. Slot \<open>i\<close> after \<open>UpdateUserRating\<close> is slot
  \<open>i\<close> before, minus one exactly when \<open>oldRating\<close> lies in \<open>[100, 5000]\<close> and
  is \<open>i\<close>, plus one exactly when \<open>newRating\<close> lies in \<open>[100, 5000]\<close> and is
  \<open>i\<close>. Each of the two terms depends on one argument only.
\<close>

theorem UpdateUserRating_slots:
  "wf_RankManager rm \<Longrightarrow> i < 5001 \<Longrightarrow>
   histogram (UpdateUserRating rm oldRating newRating) ! i =
     histogram rm ! i
       - (if 100 \<le> oldRating \<and> oldRating \<le> 5000 \<and> int i = oldRating then 1 else 0)
       + (if 100 \<le> newRating \<and> newRating \<le> 5000 \<and> int i = newRating then 1 else 0)"
  by (auto simp add: UpdateUserRating_def Let_def wf_RankManager_def nth_list_update)

text \<open>
  Claim C9 at the move from 100 to 300: slot 100 loses one, slot 300 gains one.
\<close>

theorem UpdateUserRating_slots_witness:
  "wf_RankManager (BulkLoad InitRankManager [100, 100, 200]) \<and> (100 :: nat) < 5001
   \<and> histogram (UpdateUserRating (BulkLoad InitRankManager [100, 100, 200]) 100 300) ! 100
       = histogram (BulkLoad InitRankManager [100, 100, 200]) ! 100 - 1
   \<and> histogram (UpdateUserRating (BulkLoad InitRankManager [100, 100, 200]) 100 300) ! 300
       = histogram (BulkLoad InitRankManager [100, 100, 200]) ! 300 + 1"
  using UpdateUserRating_slots [OF wf_loaded, of 100 100 300]
    UpdateUserRating_slots [OF wf_loaded, of 300 100 300] wf_loaded
  by simp

text \<open>
  Claim C10. For every table state and all integer arguments,
  \<open>UpdateUserRating oldRating newRating\<close> leaves every slot whose index is neither
  \<open>oldRating\<close> nor \<open>newRating\<close> as it was.
\<close>

theorem UpdateUserRating_frame:
  "int i \<noteq> oldRating \<Longrightarrow> int i \<noteq> newRating \<Longrightarrow>
   histogram (UpdateUserRating rm oldRating newRating) ! i = histogram rm ! i"
  by (auto simp add: UpdateUserRating_def Let_def)

text \<open>
  Claim C10 at the move from 100 to 300, for slot 200.
\<close>

theorem UpdateUserRating_frame_witness:
  "int 200 \<noteq> 100 \<and> int 200 \<noteq> 300
   \<and> histogram (UpdateUserRating (BulkLoad InitRankManager [100, 100, 200]) 100 300) ! 200
       = histogram (BulkLoad InitRankManager [100, 100, 200]) ! 200"
  using UpdateUserRating_frame [of 200 100 300 "BulkLoad InitRankManager [100, 100, 200]"]
  by simp

end
